theory Spec2Isabelle
  imports Complex_Main
begin

section \<open>JavaScript values\<close>

text \<open>
  The values the block receives from its host and from the upload transport: \<open>undefined\<close>
  and the values of a JSON document. Numbers are the integers (byte counts), which the
  double arithmetic of the source represents exactly below \<open>2 ^ 53\<close>; fractions, arrays and
  functions are outside the model. A string is a list of ASCII characters. An object is
  the list of its own enumerable properties in insertion order.
\<close>

datatype jsval =
    JUndefined
  | JNull
  | JBool bool
  | JNum int
  | JStr string
  | JObj "(string \<times> jsval) list"

text \<open>The exceptions the methods of the block can raise, all of them TypeErrors.\<close>

datatype error =
    NullResponse        \<comment> \<open>a property of a null or undefined response is read\<close>
  | NullNode            \<comment> \<open>a member of \<open>this.nodes\<close> that is still null is dereferenced\<close>
  | NotAFunction        \<comment> \<open>\<open>name.split\<close> is called on a value that is not a string\<close>
  | UndefinedReceiver   \<comment> \<open>a method is called on the \<open>undefined\<close> that \<open>pop\<close> gives on an empty array\<close>

type_synonym 'a result = "error + 'a"

fun truthy :: "jsval \<Rightarrow> bool" where
  "truthy JUndefined = False"
| "truthy JNull = False"
| "truthy (JBool b) = b"
| "truthy (JNum n) = (n \<noteq> 0)"
| "truthy (JStr s) = (s \<noteq> [])"
| "truthy (JObj ps) = True"

text \<open>\<open>a || b\<close>\<close>

definition js_or :: "jsval \<Rightarrow> jsval \<Rightarrow> jsval" where
  "js_or a b = (if truthy a then a else b)"

definition nullish :: "jsval \<Rightarrow> bool" where
  "nullish v = (v = JUndefined \<or> v = JNull)"

text \<open>
  \<open>v.k\<close> for a value \<open>v\<close> that is neither null nor undefined (the callers test
  \<open>nullish\<close> first, where the source would raise) and a name \<open>k\<close> that no primitive
  wrapper defines: an own property of an object, \<open>undefined\<close> otherwise.
\<close>

definition getProp :: "jsval \<Rightarrow> string \<Rightarrow> jsval" where
  "getProp v k = (case v of
      JObj ps \<Rightarrow> (case map_of ps k of Some x \<Rightarrow> x | None \<Rightarrow> JUndefined)
    | _ \<Rightarrow> JUndefined)"

definition Object_values :: "(string \<times> jsval) list \<Rightarrow> jsval list" where
  "Object_values ps = map snd ps"

section \<open>Strings\<close>

text \<open>\<open>String.prototype.split\<close> with a one-character separator.\<close>

fun split :: "char \<Rightarrow> string \<Rightarrow> string list" where
  "split sep [] = [[]]"
| "split sep (c # cs) =
     (if c = sep then [] # split sep cs
      else (case split sep cs of
              [] \<Rightarrow> [[c]]
            | x # xs \<Rightarrow> (c # x) # xs))"

text \<open>\<open>Array.prototype.pop\<close>: the last element, \<open>undefined\<close> on an empty array.\<close>

definition pop :: "'a list \<Rightarrow> 'a option" where
  "pop xs = (if xs = [] then None else Some (last xs))"

definition lower_char :: "char \<Rightarrow> char" where
  "lower_char c =
     (case map_of (zip ''ABCDEFGHIJKLMNOPQRSTUVWXYZ'' ''abcdefghijklmnopqrstuvwxyz'') c of
        Some l \<Rightarrow> l
      | None \<Rightarrow> c)"

definition toLowerCase :: "string \<Rightarrow> string" where
  "toLowerCase s = map lower_char s"

text \<open>
  The extension that \<open>onUpload\<close> derives:
  \<^verbatim>\<open>name ? name.split('.').pop().toLowerCase() : ''\<close>
\<close>

definition deriveExtension :: "jsval \<Rightarrow> string result" where
  "deriveExtension name =
     (if truthy name then
        (case name of
           JStr s \<Rightarrow> (case pop (split (CHR ''.'') s) of
                        None \<Rightarrow> Inl UndefinedReceiver
                      | Some e \<Rightarrow> Inr (toLowerCase e))
         | _ \<Rightarrow> Inl NotAFunction)
      else Inr [])"


section \<open>Numbers\<close>

definition digit_char :: "nat \<Rightarrow> char" where
  "digit_char d = ''0123456789'' ! d"

fun digits :: "nat \<Rightarrow> string" where
  "digits n = (if n < 10 then [digit_char n] else digits (n div 10) @ [digit_char (n mod 10)])"

declare digits.simps [simp del]

text \<open>A number of the source: an integer, or \<open>NaN\<close>.\<close>

datatype jsnum = Fin int | NaN

definition is_digit :: "char \<Rightarrow> bool" where
  "is_digit c = (c \<in> set ''0123456789'')"

definition digit_value :: "char \<Rightarrow> nat" where
  "digit_value c = length (takeWhile (\<lambda>d. d \<noteq> c) ''0123456789'')"

definition is_space :: "char \<Rightarrow> bool" where
  "is_space c = (c \<in> set [CHR 0x09, CHR 0x0A, CHR 0x0B, CHR 0x0C, CHR 0x0D, CHR '' ''])"

definition digits_value :: "string \<Rightarrow> nat" where
  "digits_value ds = foldl (\<lambda>acc c. 10 * acc + digit_value c) 0 ds"

definition unsigned_literal :: "string \<Rightarrow> nat option" where
  "unsigned_literal ds = (if ds \<noteq> [] \<and> list_all is_digit ds then Some (digits_value ds) else None)"

text \<open>
  \<open>StringToNumber\<close> on the integer literals in decimal notation: blanks around the literal
  are dropped, the empty string is 0, a sign may precede the digits. The other numeric
  forms (fraction, exponent, radix prefix, \<open>Infinity\<close>) denote numbers outside the model.
\<close>

definition StringToNumber :: "string \<Rightarrow> jsnum" where
  "StringToNumber s =
     (let t = rev (dropWhile is_space (rev (dropWhile is_space s))) in
      case t of
        [] \<Rightarrow> Fin 0
      | c # cs \<Rightarrow>
          if c = CHR ''-'' then (case unsigned_literal cs of Some n \<Rightarrow> Fin (- int n) | None \<Rightarrow> NaN)
          else if c = CHR ''+'' then (case unsigned_literal cs of Some n \<Rightarrow> Fin (int n) | None \<Rightarrow> NaN)
          else (case unsigned_literal t of Some n \<Rightarrow> Fin (int n) | None \<Rightarrow> NaN))"

text \<open>\<open>+v\<close>\<close>

fun ToNumber :: "jsval \<Rightarrow> jsnum" where
  "ToNumber JUndefined = NaN"
| "ToNumber JNull = Fin 0"
| "ToNumber (JBool b) = Fin (if b then 1 else 0)"
| "ToNumber (JNum n) = Fin n"
| "ToNumber (JStr s) = StringToNumber s"
| "ToNumber (JObj ps) = NaN"

fun ToString :: "jsval \<Rightarrow> string" where
  "ToString JUndefined = ''undefined''"
| "ToString JNull = ''null''"
| "ToString (JBool b) = (if b then ''true'' else ''false'')"
| "ToString (JNum n) = (if n < 0 then CHR ''-'' # digits (nat (- n)) else digits (nat n))"
| "ToString (JStr s) = s"
| "ToString (JObj ps) = ''[object Object]''"

text \<open>
  \<open>Math.log10(x) >= 6\<close>. The logarithm of \<open>NaN\<close> and of a negative number is \<open>NaN\<close>, that of
  0 is \<open>-Infinity\<close>, and every comparison with those is false; on the positive integers the
  logarithm is increasing and is 6 at \<open>10 ^ 6\<close>.
\<close>

fun log10_ge_6 :: "jsnum \<Rightarrow> bool" where
  "log10_ge_6 NaN = False"
| "log10_ge_6 (Fin n) = (1000000 \<le> n)"

text \<open>
  \<open>(x / d).toFixed(1)\<close> for a power of two \<open>d\<close>, where the division is exact. Following
  Number.prototype.toFixed: a value that is not finite is printed by name; the sign is
  split off; \<open>n\<close> is the integer for which \<open>n / 10\<close> is closest to the magnitude, the
  larger one of two; its digits are padded to two places and the point is set before the
  last one. (From \<open>10 ^ 21\<close> on the source prints an exponent; the integers of the model
  stay below.)
\<close>

definition toFixed1 :: "jsnum \<Rightarrow> nat \<Rightarrow> string" where
  "toFixed1 x d =
     (case x of
        NaN \<Rightarrow> ''NaN''
      | Fin i \<Rightarrow>
          (let s = (if i < 0 then ''-'' else []);
               a = nat \<bar>i\<bar>;
               n = (20 * a + d) div (2 * d);
               m = digits n;
               m = (if length m \<le> 1 then replicate (2 - length m) (CHR ''0'') @ m else m);
               k = length m
           in s @ take (k - 1) m @ ''.'' @ drop (k - 1) m))"

text \<open>
  The words of the specification: the numeral of \<open>m\<close> tenths, with its sign and one
  decimal place.
\<close>

definition decimal1 :: "bool \<Rightarrow> nat \<Rightarrow> string" where
  "decimal1 neg m = (if neg then ''-'' else []) @ digits (m div 10) @ ''.'' @ digits (m mod 10)"

text \<open>
  The unit and the text of the size element in \<open>showFileData\<close>:
  \<^verbatim>\<open>
  if (Math.log10(+size) >= 6) { sizePrefix = 'MiB'; formattedSize = size / Math.pow(2, 20); }
  else { sizePrefix = 'KiB'; formattedSize = size / Math.pow(2, 10); }
  fileSize.textContent = formattedSize.toFixed(1);
  \<close>
\<close>

definition sizeLabel :: "jsval \<Rightarrow> string \<times> string" where
  "sizeLabel sz =
     (if log10_ge_6 (ToNumber sz)
      then (''MiB'', toFixed1 (ToNumber sz) (2 ^ 20))
      else (''KiB'', toFixed1 (ToNumber sz) (2 ^ 10)))"

section \<open>The document\<close>

text \<open>
  The elements the block creates live in a store indexed by natural numbers, so that the
  references kept in \<open>this.nodes\<close> and the child lists of the elements can name the same
  element. An element has at most one parent; the children of an element are references.
\<close>

datatype handler = EnableFileUpload   \<comment> \<open>the bound method \<open>this.enableFileUpload\<close>\<close>

datatype content = Markup string | Text string   \<comment> \<open>last set through \<open>innerHTML\<close> or \<open>textContent\<close>\<close>

record element =
  tagName :: string
  classList :: "string list"
  content :: content
  children :: "nat list"
  attributes :: "(string \<times> string) list"
  style_color :: string
  contentEditable :: string
  clickListeners :: "handler list"

type_synonym document = "nat \<Rightarrow> element"

definition createElement :: "string \<Rightarrow> element" where
  "createElement t =
     \<lparr>tagName = t, classList = [], content = Markup [], children = [], attributes = [],
      style_color = [], contentEditable = ''inherit'', clickListeners = []\<rparr>"

text \<open>\<open>classList.add(...tokens)\<close> and \<open>classList.remove(...tokens)\<close> on an ordered set of tokens.\<close>

definition classList_add :: "string list \<Rightarrow> string list \<Rightarrow> string list" where
  "classList_add tokens cs = foldl (\<lambda>acc t. if t \<in> set acc then acc else acc @ [t]) cs tokens"

definition classList_remove :: "string list \<Rightarrow> string list \<Rightarrow> string list" where
  "classList_remove tokens cs = filter (\<lambda>c. c \<notin> set tokens) cs"

definition setAttribute :: "string \<Rightarrow> string \<Rightarrow> element \<Rightarrow> element" where
  "setAttribute k v el =
     el\<lparr>attributes :=
          (if k \<in> fst ` set (attributes el)
           then map (\<lambda>(k', v'). if k' = k then (k, v) else (k', v')) (attributes el)
           else attributes el @ [(k, v)])\<rparr>"

text \<open>A listener that is already registered is not registered twice.\<close>

definition addClickListener :: "handler \<Rightarrow> element \<Rightarrow> element" where
  "addClickListener h el =
     (if h \<in> set (clickListeners el) then el else el\<lparr>clickListeners := clickListeners el @ [h]\<rparr>)"

definition set_innerHTML :: "string \<Rightarrow> element \<Rightarrow> element" where
  "set_innerHTML markup el = el\<lparr>content := Markup markup, children := []\<rparr>"

definition set_textContent :: "string \<Rightarrow> element \<Rightarrow> element" where
  "set_textContent t el = el\<lparr>content := Text t, children := []\<rparr>"

text \<open>\<open>node.remove()\<close>: the node leaves the child list of its parent, if it has one.\<close>

definition remove :: "nat \<Rightarrow> document \<Rightarrow> document" where
  "remove c doc = (\<lambda>i. (doc i)\<lparr>children := removeAll c (children (doc i))\<rparr>)"

text \<open>\<open>parent.appendChild(c)\<close>: the node is taken from where it was and becomes the last child.\<close>

definition appendChild :: "nat \<Rightarrow> nat \<Rightarrow> document \<Rightarrow> document" where
  "appendChild p c doc =
     (let doc' = remove c doc in doc'(p := (doc' p)\<lparr>children := children (doc' p) @ [c]\<rparr>))"

definition modify :: "nat \<Rightarrow> (element \<Rightarrow> element) \<Rightarrow> document \<Rightarrow> document" where
  "modify i f doc = doc(i := f (doc i))"

section \<open>The block\<close>

definition LOADER_TIMEOUT :: nat where
  "LOADER_TIMEOUT = 500"

text \<open>
  What the host and the imports supply: the class names of \<open>api.styles\<close> (valid class
  tokens) and the markup of the three imported SVG files.
\<close>

record host_styles =
  styles_block :: string
  styles_button :: string
  styles_loader :: string

record svg =
  Icon :: string
  FileIcon :: string
  CustomFileIcon :: string

record display_data =
  "file" :: "(string \<times> jsval) list"
  title :: jsval

text \<open>
  The members of \<open>this.config\<close> that the block reads itself; \<open>settings\<close> and \<open>uploader\<close> are
  read by \<open>renderSettings\<close> and by the uploader only.
\<close>

record tool_config =
  endpoint :: jsval
  types :: jsval
  buttonText :: jsval
  errorMessage :: jsval

text \<open>
  The instance. \<open>nodes_wrapper\<close>, \<open>nodes_button\<close> and \<open>nodes_title\<close> are the members of
  \<open>this.nodes\<close> (\<open>None\<close> is null); \<open>priv_data\<close> is \<open>this._data\<close>. The effects on the host are
  logged: the notifications shown, the calls of \<open>block.dispatchChange\<close>, the pending
  timeouts of \<open>removeLoader\<close> with their delay, the calls of the uploader.
\<close>

record block =
  api_styles :: host_styles
  assets :: svg
  nodes_wrapper :: "nat option"
  nodes_button :: "nat option"
  nodes_title :: "nat option"
  displayData :: display_data
  config :: tool_config
  priv_data :: jsval
  doc :: document
  nextElement :: nat
  notifier_shown :: "(jsval \<times> string) list"
  dispatchChange_calls :: nat
  timeouts :: "nat list"
  uploadSelectedFile_calls :: nat

text \<open>
  The constructor; \<open>cfg\<close> is the configuration object of the host. The display data start
  empty whatever \<open>data\<close> is.
\<close>

definition "constructor" :: "jsval \<Rightarrow> (string \<times> jsval) list \<Rightarrow> host_styles \<Rightarrow> svg \<Rightarrow> block" where
  "constructor dat cfg styles svgs =
     \<lparr>api_styles = styles,
      assets = svgs,
      nodes_wrapper = None,
      nodes_button = None,
      nodes_title = None,
      displayData = \<lparr>file = [], title = JStr []\<rparr>,
      config = \<lparr>endpoint = js_or (getProp (JObj cfg) ''endpoint'') (JStr []),
                types = js_or (getProp (JObj cfg) ''types'') (JStr ''*''),
                buttonText = js_or (getProp (JObj cfg) ''buttonText'') (JStr ''Select file to upload''),
                errorMessage = js_or (getProp (JObj cfg) ''errorMessage'') (JStr ''File upload failed'')\<rparr>,
      priv_data = js_or dat (JObj []),
      doc = (\<lambda>i. createElement []),
      nextElement = 0,
      notifier_shown = [],
      dispatchChange_calls = 0,
      timeouts = [],
      uploadSelectedFile_calls = 0\<rparr>"

subsection \<open>Class names and the colour table\<close>

definition CSS_baseClass :: "block \<Rightarrow> string" where "CSS_baseClass s = styles_block (api_styles s)"
definition CSS_apiButton :: "block \<Rightarrow> string" where "CSS_apiButton s = styles_button (api_styles s)"
definition CSS_loader :: "block \<Rightarrow> string" where "CSS_loader s = styles_loader (api_styles s)"
definition CSS_wrapper :: string where "CSS_wrapper = ''cdx-file-selector''"
definition CSS_wrapperWithFile :: string where "CSS_wrapperWithFile = ''cdx-file-selector--with-file''"
definition CSS_wrapperLoading :: string where "CSS_wrapperLoading = ''cdx-file-selector--loading''"
definition CSS_button :: string where "CSS_button = ''cdx-file-selector__button''"
definition CSS_title :: string where "CSS_title = ''cdx-file-selector__title''"
definition CSS_size :: string where "CSS_size = ''cdx-file-selector__size''"
definition CSS_fileInfo :: string where "CSS_fileInfo = ''cdx-file-selector__file-info''"
definition CSS_fileIcon :: string where "CSS_fileIcon = ''cdx-file-selector__file-icon''"

definition EXTENSIONS :: "(string \<times> string) list" where
  "EXTENSIONS =
     [(''doc'', ''#3e74da''), (''docx'', ''#3e74da''), (''odt'', ''#3e74da''),
      (''pdf'', ''#d47373''), (''rtf'', ''#656ecd''), (''tex'', ''#5a5a5b''),
      (''txt'', ''#5a5a5b''), (''pptx'', ''#e07066''), (''ppt'', ''#e07066''),
      (''mp3'', ''#eab456''), (''mp4'', ''#f676a6''), (''xls'', ''#3f9e64''),
      (''xlsx'', ''#3f9e64''), (''html'', ''#2988f0''), (''htm'', ''#2988f0''),
      (''png'', ''#f676a6''), (''jpg'', ''#f67676''), (''jpeg'', ''#f67676''),
      (''gif'', ''#f6af76''), (''zip'', ''#4f566f''), (''rar'', ''#4f566f''),
      (''exe'', ''#e26f6f''), (''svg'', ''#bf5252''), (''key'', ''#e07066''),
      (''sketch'', ''#df821c''), (''ai'', ''#df821c''), (''psd'', ''#388ae5''),
      (''dmg'', ''#e26f6f''), (''json'', ''#2988f0''), (''csv'', ''#3f9e64'')]"

text \<open>
  The table is an object literal, and \<open>this.EXTENSIONS[extension]\<close> is a property read:
  a name that is not a key of the literal is looked up in \<open>Object.prototype\<close>, whose
  members are functions, or the prototype itself for \<open>__proto__\<close>.
\<close>

definition Object_prototype :: "string list" where
  "Object_prototype =
     [''constructor'', ''__defineGetter__'', ''__defineSetter__'', ''hasOwnProperty'',
      ''__lookupGetter__'', ''__lookupSetter__'', ''isPrototypeOf'', ''propertyIsEnumerable'',
      ''toString'', ''valueOf'', ''__proto__'', ''toLocaleString'']"

datatype table_value =
    Colour string      \<comment> \<open>the colour of a key of the table\<close>
  | Inherited string   \<comment> \<open>the member of \<open>Object.prototype\<close> of that name\<close>
  | Missing            \<comment> \<open>\<open>undefined\<close>\<close>

definition EXTENSIONS_get :: "string \<Rightarrow> table_value" where
  "EXTENSIONS_get k =
     (case map_of EXTENSIONS k of
        Some c \<Rightarrow> Colour c
      | None \<Rightarrow> if k \<in> set Object_prototype then Inherited k else Missing)"

fun table_truthy :: "table_value \<Rightarrow> bool" where
  "table_truthy (Colour c) = (c \<noteq> [])"
| "table_truthy (Inherited k) = True"
| "table_truthy Missing = False"

subsection \<open>Methods\<close>

text \<open>
  A method takes the instance and returns its result, or the exception it raised, with the
  instance as the method left it: an exception does not undo the assignments before it.
\<close>

datatype class_arg = NoClass | ClassName string | ClassNames "string list"

datatype attribute_arg = InnerHTML string | ContentEditable bool

fun assign_attribute :: "element \<Rightarrow> attribute_arg \<Rightarrow> element" where
  "assign_attribute el (InnerHTML markup) = set_innerHTML markup el"
| "assign_attribute el (ContentEditable b) = el\<lparr>contentEditable := (if b then ''true'' else ''false'')\<rparr>"

text \<open>\<open>make(tagName, classNames, attributes)\<close>; the new element gets the next free index.\<close>

definition make :: "string \<Rightarrow> class_arg \<Rightarrow> attribute_arg list \<Rightarrow> block \<Rightarrow> nat \<times> block" where
  "make tag classNames attrs s =
     (let el = createElement tag;
          el = (case classNames of
                  ClassNames cs \<Rightarrow> el\<lparr>classList := classList_add cs (classList el)\<rparr>
                | ClassName c \<Rightarrow> if c \<noteq> [] then el\<lparr>classList := classList_add [c] (classList el)\<rparr> else el
                | NoClass \<Rightarrow> el);
          el = foldl assign_attribute el attrs;
          i = nextElement s
      in (i, s\<lparr>doc := (doc s)(i := el), nextElement := Suc i\<rparr>))"

definition pluginHasData :: "block \<Rightarrow> bool" where
  "pluginHasData s =
     (title (displayData s) \<noteq> JStr []
      \<or> list_ex (\<lambda>item. item \<noteq> JUndefined) (Object_values (file (displayData s))))"

definition removeLoader :: "block \<Rightarrow> block" where
  "removeLoader s = s\<lparr>timeouts := timeouts s @ [LOADER_TIMEOUT]\<rparr>"

text \<open>The callback that \<open>removeLoader\<close> hands to \<open>setTimeout\<close>.\<close>

definition removeLoader_callback :: "block \<Rightarrow> unit result \<times> block" where
  "removeLoader_callback s =
     (case nodes_wrapper s of
        None \<Rightarrow> (Inl NullNode, s)
      | Some w \<Rightarrow>
          (Inr (), s\<lparr>doc := modify w (\<lambda>el. el\<lparr>classList :=
                             classList_remove [CSS_wrapperLoading, CSS_loader s] (classList el)\<rparr>) (doc s)\<rparr>))"

text \<open>The \<open>onPreview\<close> callback that \<open>enableFileUpload\<close> hands to the uploader.\<close>

definition onPreview :: "block \<Rightarrow> unit result \<times> block" where
  "onPreview s =
     (case nodes_wrapper s of
        None \<Rightarrow> (Inl NullNode, s)
      | Some w \<Rightarrow>
          (Inr (), s\<lparr>doc := modify w (\<lambda>el. el\<lparr>classList :=
                             classList_add [CSS_wrapperLoading, CSS_loader s] (classList el)\<rparr>) (doc s)\<rparr>))"

definition enableFileUpload :: "block \<Rightarrow> block" where
  "enableFileUpload s = s\<lparr>uploadSelectedFile_calls := Suc (uploadSelectedFile_calls s)\<rparr>"

definition prepareUploadButton :: "block \<Rightarrow> unit result \<times> block" where
  "prepareUploadButton s =
     (let (b, s1) = make ''div'' (ClassNames [CSS_apiButton s, CSS_button]) [] s;
          s2 = s1\<lparr>nodes_button := Some b\<rparr>;
          s3 = s2\<lparr>doc := modify b (set_innerHTML (Icon (assets s2) @ '' '' @ ToString (buttonText (config s2)))) (doc s2)\<rparr>;
          s4 = s3\<lparr>doc := modify b (addClickListener EnableFileUpload) (doc s3)\<rparr>
      in case nodes_wrapper s4 of
           None \<Rightarrow> (Inl NullNode, s4)
         | Some w \<Rightarrow> (Inr (), s4\<lparr>doc := appendChild w b (doc s4)\<rparr>))"

text \<open>\<open>extension.length > 3\<close>; the length of a string, the property \<open>length\<close> of another value.\<close>

definition longer_than_3 :: "jsval \<Rightarrow> bool" where
  "longer_than_3 v =
     (case v of
        JStr e \<Rightarrow> 3 < length e
      | _ \<Rightarrow> (case ToNumber (getProp v ''length'') of Fin n \<Rightarrow> 3 < n | NaN \<Rightarrow> False))"

text \<open>
  \<open>appendFileIcon\<close>. Assigning to \<open>style.color\<close> a value whose text is not a colour, as the
  members of \<open>Object.prototype\<close> are, leaves the colour as it was.
\<close>

definition appendFileIcon :: "block \<Rightarrow> unit result \<times> block" where
  "appendFileIcon s =
     (let extension = js_or (getProp (JObj (file (displayData s))) ''extension'') (JStr []);
          extensionColor = EXTENSIONS_get (ToString extension);
          (fileIcon, s1) = make ''div'' (ClassName CSS_fileIcon)
             [InnerHTML (if table_truthy extensionColor then CustomFileIcon (assets s) else FileIcon (assets s))] s;
          s2 = (if table_truthy extensionColor then
                  (let a = (case extensionColor of
                              Colour c \<Rightarrow> s1\<lparr>doc := modify fileIcon (\<lambda>el. el\<lparr>style_color := c\<rparr>) (doc s1)\<rparr>
                            | _ \<Rightarrow> s1);
                       b = (if longer_than_3 extension
                            then a\<lparr>doc := modify fileIcon (\<lambda>el. el\<lparr>classList := classList_add [''longer''] (classList el)\<rparr>) (doc a)\<rparr>
                            else a\<lparr>doc := modify fileIcon (\<lambda>el. el\<lparr>classList := classList_remove [''longer''] (classList el)\<rparr>) (doc a)\<rparr>)
                   in b\<lparr>doc := modify fileIcon (setAttribute ''data-extension'' (ToString extension)) (doc b)\<rparr>)
                else s1)
      in case nodes_wrapper s2 of
           None \<Rightarrow> (Inl NullNode, s2)
         | Some w \<Rightarrow> (Inr (), s2\<lparr>doc := appendChild w fileIcon (doc s2)\<rparr>))"

text \<open>
  \<open>showFileData\<close>. Nothing between its first and its last statement assigns
  \<open>this.nodes.wrapper\<close>, so the reference read by the first statement is the one the later
  statements read.
\<close>

definition showFileData :: "block \<Rightarrow> unit result \<times> block" where
  "showFileData s =
     (case nodes_wrapper s of
        None \<Rightarrow> (Inl NullNode, s)
      | Some w \<Rightarrow>
         (let s1 = s\<lparr>doc := modify w (set_innerHTML []) (doc s)\<rparr>;
              s2 = s1\<lparr>doc := modify w (\<lambda>el. el\<lparr>classList := classList_add [CSS_wrapperWithFile] (classList el)\<rparr>) (doc s1)\<rparr>;
              sz = getProp (JObj (file (displayData s2))) ''size'';
              ttl = title (displayData s2)
          in case appendFileIcon s2 of
               (Inl e, s3) \<Rightarrow> (Inl e, s3)
             | (Inr u, s3) \<Rightarrow>
                (let (fileInfo, s4) = make ''div'' (ClassName CSS_fileInfo) [] s3;
                     s5 = (if truthy ttl then
                             (let (t, a) = make ''div'' (ClassName CSS_title) [ContentEditable False] s4;
                                  a = a\<lparr>nodes_title := Some t\<rparr>;
                                  a = a\<lparr>doc := modify t (set_textContent (ToString ttl)) (doc a)\<rparr>
                              in a\<lparr>doc := appendChild fileInfo t (doc a)\<rparr>)
                           else s4);
                     s6 = (if truthy sz then
                             (let (fileSize, a) = make ''div'' (ClassName CSS_size) [] s5;
                                  (sizePrefix, formattedSize) = sizeLabel sz;
                                  a = a\<lparr>doc := modify fileSize (set_textContent formattedSize) (doc a)\<rparr>;
                                  a = a\<lparr>doc := modify fileSize (setAttribute ''data-size'' sizePrefix) (doc a)\<rparr>
                              in a\<lparr>doc := appendChild fileInfo fileSize (doc a)\<rparr>)
                           else s5);
                     s7 = s6\<lparr>doc := appendChild w fileInfo (doc s6)\<rparr>
                 in (Inr (), s7\<lparr>doc := modify w (addClickListener EnableFileUpload) (doc s7)\<rparr>))))"

text \<open>\<open>render\<close> returns the holder element.\<close>

definition render :: "block \<Rightarrow> nat result \<times> block" where
  "render s =
     (let (holder, s1) = make ''div'' (ClassName (CSS_baseClass s)) [] s;
          (w, s2) = make ''div'' (ClassName CSS_wrapper) [] s1;
          s3 = s2\<lparr>nodes_wrapper := Some w\<rparr>
      in case (if pluginHasData s3 then showFileData s3 else prepareUploadButton s3) of
           (Inl e, s4) \<Rightarrow> (Inl e, s4)
         | (Inr u, s4) \<Rightarrow> (Inr holder, s4\<lparr>doc := appendChild holder w (doc s4)\<rparr>))"

definition uploadingFailed :: "jsval \<Rightarrow> block \<Rightarrow> unit result \<times> block" where
  "uploadingFailed message s =
     (Inr (), removeLoader (s\<lparr>notifier_shown := notifier_shown s @ [(message, ''error'')]\<rparr>))"

definition onUpload :: "jsval \<Rightarrow> block \<Rightarrow> unit result \<times> block" where
  "onUpload response s =
     (let body = response in
      if nullish body then (Inl NullResponse, s)
      else if truthy (getProp body ''success'') \<and> truthy (getProp body ''file'') then
        (let name = getProp (getProp body ''file'') ''name'';
             sz = getProp (getProp body ''file'') ''size'';
             ttl = getProp (getProp body ''file'') ''title''
         in case deriveExtension name of
              Inl e \<Rightarrow> (Inl e, s)
            | Inr extension \<Rightarrow>
               (let s1 = s\<lparr>displayData :=
                            \<lparr>file = [(''extension'', JStr extension), (''name'', name), (''size'', sz)],
                             title = ttl\<rparr>\<rparr>
                in case nodes_button s1 of
                     None \<Rightarrow> (Inl NullNode, s1)
                   | Some b \<Rightarrow>
                      (case showFileData (s1\<lparr>doc := remove b (doc s1)\<rparr>) of
                         (Inl e, s2) \<Rightarrow> (Inl e, s2)
                       | (Inr u, s2) \<Rightarrow> (Inr (), removeLoader s2))))
      else uploadingFailed (errorMessage (config s)) s)"

text \<open>The accessors of \<open>data\<close>, \<open>save\<close> and \<open>validate\<close>.\<close>

definition get_data :: "block \<Rightarrow> jsval" where
  "get_data s = priv_data s"

definition set_data :: "jsval \<Rightarrow> block \<Rightarrow> block" where
  "set_data dat s = (s\<lparr>priv_data := js_or dat (JObj [])\<rparr>)\<lparr>dispatchChange_calls := Suc (dispatchChange_calls s)\<rparr>"

definition save :: "block \<Rightarrow> jsval" where
  "save s = get_data s"

definition validate :: "jsval \<Rightarrow> bool" where
  "validate savedData = True"

subsection \<open>The life of an instance\<close>

text \<open>
  What can happen to an instance after its construction: the host renders it, assigns its
  data or clicks it; the uploader calls back; a timeout of \<open>removeLoader\<close> expires. An
  exception ends the call that raised it and leaves the instance as it is.
\<close>

datatype event =
    Render
  | Click
  | Preview
  | OnUpload jsval
  | OnError jsval
  | SetData jsval
  | Timeout

fun step :: "block \<Rightarrow> event \<Rightarrow> block" where
  "step s Render = snd (render s)"
| "step s Click = enableFileUpload s"
| "step s Preview = snd (onPreview s)"
| "step s (OnUpload response) = snd (onUpload response s)"
| "step s (OnError e) = snd (uploadingFailed e s)"
| "step s (SetData dat) = set_data dat s"
| "step s Timeout =
     (case timeouts s of
        [] \<Rightarrow> s
      | t # ts \<Rightarrow> snd (removeLoader_callback (s\<lparr>timeouts := ts\<rparr>)))"

definition run :: "block \<Rightarrow> event list \<Rightarrow> block" where
  "run s evs = foldl step s evs"

section \<open>Reading the document and the life of an instance\<close>

text \<open>
  The definitions of this section are not methods of the source: they name what the
  theorems below say about the methods.
\<close>

subsection \<open>The elements of the file card, as values\<close>

definition fileIcon_element :: "display_data \<Rightarrow> svg \<Rightarrow> element" where
  "fileIcon_element D A =
     (let extension = js_or (getProp (JObj (file D)) ''extension'') (JStr []);
          extensionColor = EXTENSIONS_get (ToString extension);
          el = (createElement ''div'')\<lparr>classList := [CSS_fileIcon],
                  content := Markup (if table_truthy extensionColor then CustomFileIcon A else FileIcon A)\<rparr>
      in if table_truthy extensionColor then
           el\<lparr>style_color := (case extensionColor of Colour c \<Rightarrow> c | _ \<Rightarrow> []),
              classList := (if longer_than_3 extension then [CSS_fileIcon, ''longer''] else [CSS_fileIcon]),
              attributes := [(''data-extension'', ToString extension)]\<rparr>
         else el)"

definition title_element :: "jsval \<Rightarrow> element" where
  "title_element ttl =
     (createElement ''div'')\<lparr>classList := [CSS_title], contentEditable := ''false'',
                               content := Text (ToString ttl)\<rparr>"

definition size_element :: "jsval \<Rightarrow> element" where
  "size_element sz =
     (createElement ''div'')\<lparr>classList := [CSS_size], content := Text (snd (sizeLabel sz)),
                               attributes := [(''data-size'', fst (sizeLabel sz))]\<rparr>"

definition fileInfo_element :: "nat list \<Rightarrow> element" where
  "fileInfo_element kids = (createElement ''div'')\<lparr>classList := [CSS_fileInfo], children := kids\<rparr>"

definition wrapper_with_file :: "element \<Rightarrow> nat list \<Rightarrow> element" where
  "wrapper_with_file el kids =
     addClickListener EnableFileUpload
       (el\<lparr>content := Markup [], classList := classList_add [CSS_wrapperWithFile] (classList el),
           children := kids\<rparr>)"

definition fileInfo_children :: "nat \<Rightarrow> display_data \<Rightarrow> nat list" where
  "fileInfo_children n D =
     (if truthy (title D) then [n + 2] else []) @
     (if truthy (getProp (JObj (file D)) ''size'') then [if truthy (title D) then n + 3 else n + 2] else [])"

subsection \<open>The tree below an element\<close>

text \<open>
  The content of an element without the identity of its descendants: the element with its
  child references erased, and the trees of its children, down to a given depth.
\<close>

datatype domtree = DomNode element "domtree list"

fun snapshot :: "nat \<Rightarrow> document \<Rightarrow> nat \<Rightarrow> domtree" where
  "snapshot 0 d i = DomNode ((d i)\<lparr>children := []\<rparr>) []"
| "snapshot (Suc k) d i = DomNode ((d i)\<lparr>children := []\<rparr>) (map (snapshot k d) (children (d i)))"

fun cut :: "nat \<Rightarrow> domtree \<Rightarrow> domtree" where
  "cut 0 (DomNode e ts) = DomNode e []"
| "cut (Suc k) (DomNode e ts) = DomNode e (map (cut k) ts)"

text \<open>The content and the classes of the wrapper, when there is one.\<close>

definition wrapper_view :: "nat \<Rightarrow> block \<Rightarrow> domtree option" where
  "wrapper_view k s = map_option (snapshot k (doc s)) (nodes_wrapper s)"

text \<open>The file card on a wrapper element \<open>el\<close>.\<close>

definition fileCard_tree :: "element \<Rightarrow> display_data \<Rightarrow> svg \<Rightarrow> domtree" where
  "fileCard_tree el D A =
     DomNode (wrapper_with_file el [])
       [DomNode (fileIcon_element D A) [],
        DomNode (fileInfo_element [])
          ((if truthy (title D) then [DomNode (title_element (title D)) []] else []) @
           (if truthy (getProp (JObj (file D)) ''size'')
            then [DomNode (size_element (getProp (JObj (file D)) ''size'')) []] else []))]"



subsection \<open>Responses and invariants\<close>

text \<open>
  A response that takes \<open>onUpload\<close> through its success branch up to the assignment of the
  display data: \<open>success\<close> and \<open>file\<close> are truthy and the name is a string or is falsy.
\<close>

definition uploadAccepted :: "jsval \<Rightarrow> bool" where
  "uploadAccepted r =
     (\<not> nullish r \<and> truthy (getProp r ''success'') \<and> truthy (getProp r ''file'') \<and>
      (case deriveExtension (getProp (getProp r ''file'') ''name'') of Inl e \<Rightarrow> False | Inr x \<Rightarrow> True))"

text \<open>The wrapper, when there is one, is an element that has been created.\<close>

definition wrapper_created :: "block \<Rightarrow> bool" where
  "wrapper_created s = (case nodes_wrapper s of None \<Rightarrow> True | Some w \<Rightarrow> w < nextElement s)"

definition is_OnUpload :: "event \<Rightarrow> bool" where
  "is_OnUpload e = (case e of OnUpload r \<Rightarrow> True | _ \<Rightarrow> False)"

subsection \<open>An instance for the examples\<close>

definition example_styles :: host_styles where
  "example_styles = \<lparr>styles_block = ''cdx-block'', styles_button = ''cdx-button'', styles_loader = ''cdx-loader''\<rparr>"

definition example_svg :: svg where
  "example_svg = \<lparr>Icon = ''<svg>toolbox</svg>'', FileIcon = ''<svg>standard</svg>'', CustomFileIcon = ''<svg>custom</svg>''\<rparr>"

definition example_block :: block where
  "example_block = constructor JUndefined [] example_styles example_svg"

definition inherited_response :: jsval where
  "inherited_response = JObj [(''success'', JNum 1), (''file'', JObj [(''name'', JStr ''a.constructor'')])]"

definition example_response :: jsval where
  "example_response =
     JObj [(''success'', JNum 1),
           (''file'', JObj [(''name'', JStr ''a.pdf''), (''size'', JNum 2048), (''title'', JStr ''A'')])]"

section \<open>The derived extension\<close>










section \<open>The size label\<close>

lemma digits_small: "n < 10 \<Longrightarrow> digits n = [digit_char n]"
  by (simp add: digits.simps)

lemma digits_step: "10 \<le> n \<Longrightarrow> digits n = digits (n div 10) @ [digit_char (n mod 10)]"
  by (subst digits.simps) simp

lemma digits_not_Nil: "digits n \<noteq> []"
  by (subst digits.simps) simp

lemma digit_value_digit_char: "d < 10 \<Longrightarrow> digit_value (digit_char d) = d"
proof -
  assume "d < 10"
  then have "d = 0 \<or> d = 1 \<or> d = 2 \<or> d = 3 \<or> d = 4 \<or> d = 5 \<or> d = 6 \<or> d = 7 \<or> d = 8 \<or> d = 9"
    by arith
  then show ?thesis
    by (elim disjE) (simp_all add: digit_char_def digit_value_def)
qed

lemma digits_value_snoc: "digits_value (ds @ [c]) = 10 * digits_value ds + digit_value c"
  by (simp add: digits_value_def)

lemma digits_value_digits: "digits_value (digits n) = n"
proof (induction n rule: digits.induct)
  case (1 n)
  show ?case
  proof (cases "n < 10")
    case True
    then show ?thesis
      by (simp add: digits_small digits_value_def digit_value_digit_char)
  next
    case False
    with 1 have "digits_value (digits (n div 10)) = n div 10" by simp
    with False show ?thesis
      by (simp add: digits_step digits_value_snoc digit_value_digit_char)
  qed
qed

lemma fixed_point_text:
  "(let m = digits n;
        m = (if length m \<le> 1 then replicate (2 - length m) (CHR ''0'') @ m else m);
        k = length m
    in take (k - 1) m @ ''.'' @ drop (k - 1) m) = digits (n div 10) @ ''.'' @ digits (n mod 10)"
proof (cases "n < 10")
  case True
  then show ?thesis
    by (simp add: digits_small Let_def digit_char_def)
next
  case False
  then have "digits n = digits (n div 10) @ [digit_char (n mod 10)]"
    by (simp add: digits_step)
  moreover have "digits (n mod 10) = [digit_char (n mod 10)]"
    by (simp add: digits_small)
  moreover have "length (digits (n div 10)) \<noteq> 0"
    using digits_not_Nil by simp
  ultimately show ?thesis
    by (simp add: Let_def)
qed




lemma toFixed1_Fin:
  "toFixed1 (Fin i) d = decimal1 (i < 0) ((20 * nat \<bar>i\<bar> + d) div (2 * d))"
  using fixed_point_text[of "(20 * nat \<bar>i\<bar> + d) div (2 * d)"]
  by (simp add: toFixed1_def decimal1_def Let_def)




section \<open>The methods, step by step\<close>

lemma appendFileIcon_eq:
  "appendFileIcon s =
     (let n = nextElement s;
          s' = s\<lparr>doc := (doc s)(n := fileIcon_element (displayData s) (assets s)), nextElement := Suc n\<rparr>
      in case nodes_wrapper s of
           None \<Rightarrow> (Inl NullNode, s')
         | Some w \<Rightarrow> (Inr (), s'\<lparr>doc := appendChild w n (doc s')\<rparr>))"
  by (cases "EXTENSIONS_get (ToString (js_or (getProp (JObj (file (displayData s))) ''extension'') (JStr [])))")
     (simp_all add: appendFileIcon_def fileIcon_element_def make_def Let_def modify_def createElement_def
       set_innerHTML_def setAttribute_def classList_add_def classList_remove_def CSS_fileIcon_def
       split: option.splits)


lemma showFileData_None: "nodes_wrapper s = None \<Longrightarrow> showFileData s = (Inl NullNode, s)"
  by (simp add: showFileData_def)

lemma remove_apply: "remove c d i = (d i)\<lparr>children := removeAll c (children (d i))\<rparr>"
  by (simp add: remove_def)

lemma appendChild_apply:
  "appendChild p c d i =
     (if i = p then (d p)\<lparr>children := removeAll c (children (d p)) @ [c]\<rparr>
      else (d i)\<lparr>children := removeAll c (children (d i))\<rparr>)"
  by (simp add: appendChild_def remove_def Let_def)

lemma modify_apply: "modify i f d j = (if j = i then f (d i) else d j)"
  by (simp add: modify_def)

lemma showFileData_Some_fst:
  assumes "nodes_wrapper s = Some w"
  shows "fst (showFileData s) = Inr ()"
  using assms
  by (simp add: showFileData_def appendFileIcon_eq make_def Let_def split: prod.splits)


lemmas showFileData_unfold = showFileData_def appendFileIcon_eq make_def Let_def
  appendChild_apply modify_apply remove_apply

lemma showFileData_Some_wrapper:
  assumes "nodes_wrapper s = Some w" and "w < nextElement s"
  shows "doc (snd (showFileData s)) w = wrapper_with_file (doc s w) [nextElement s, Suc (nextElement s)]"
  using assms
  by (simp add: showFileData_unfold wrapper_with_file_def set_innerHTML_def addClickListener_def
        split: prod.splits)


lemma showFileData_Some_icon:
  assumes "nodes_wrapper s = Some w" and "w < nextElement s"
  shows "doc (snd (showFileData s)) (nextElement s) = fileIcon_element (displayData s) (assets s)"
proof -
  have "children (fileIcon_element (displayData s) (assets s)) = []"
    by (simp add: fileIcon_element_def Let_def createElement_def)
  with assms show ?thesis
    by (simp add: showFileData_unfold split: prod.splits)
qed

lemma showFileData_Some_fileInfo:
  assumes "nodes_wrapper s = Some w" and "w < nextElement s"
  shows "doc (snd (showFileData s)) (Suc (nextElement s)) = fileInfo_element (fileInfo_children (nextElement s) (displayData s))"
  using assms
  by (simp add: showFileData_unfold fileInfo_element_def fileInfo_children_def createElement_def
        classList_add_def CSS_fileInfo_def split: prod.splits)

lemma showFileData_Some_title:
  assumes "nodes_wrapper s = Some w" and "w < nextElement s" and "truthy (title (displayData s))"
  shows "doc (snd (showFileData s)) (nextElement s + 2) = title_element (title (displayData s))"
  using assms
  by (simp add: showFileData_unfold title_element_def createElement_def set_textContent_def
        classList_add_def CSS_title_def split: prod.splits)

lemma showFileData_Some_size:
  assumes "nodes_wrapper s = Some w" and "w < nextElement s"
    and "truthy (getProp (JObj (file (displayData s))) ''size'')"
  shows "doc (snd (showFileData s)) (if truthy (title (displayData s)) then nextElement s + 3 else nextElement s + 2)
             = size_element (getProp (JObj (file (displayData s))) ''size'')"
  using assms
  by (simp add: showFileData_unfold size_element_def createElement_def set_textContent_def setAttribute_def
        classList_add_def CSS_size_def split: prod.splits)

lemma showFileData_frame:
  shows "nodes_wrapper (snd (showFileData s)) = nodes_wrapper s"
    and "nodes_button (snd (showFileData s)) = nodes_button s"
    and "displayData (snd (showFileData s)) = displayData s"
    and "priv_data (snd (showFileData s)) = priv_data s"
    and "config (snd (showFileData s)) = config s"
    and "api_styles (snd (showFileData s)) = api_styles s"
    and "assets (snd (showFileData s)) = assets s"
    and "notifier_shown (snd (showFileData s)) = notifier_shown s"
    and "dispatchChange_calls (snd (showFileData s)) = dispatchChange_calls s"
    and "timeouts (snd (showFileData s)) = timeouts s"
    and "uploadSelectedFile_calls (snd (showFileData s)) = uploadSelectedFile_calls s"
    and "nextElement s \<le> nextElement (snd (showFileData s))"
  by (simp_all add: showFileData_def appendFileIcon_eq make_def Let_def split: prod.splits option.splits)

lemma prepareUploadButton_frame:
  shows "nodes_wrapper (snd (prepareUploadButton s)) = nodes_wrapper s"
    and "nodes_button (snd (prepareUploadButton s)) = Some (nextElement s)"
    and "displayData (snd (prepareUploadButton s)) = displayData s"
    and "priv_data (snd (prepareUploadButton s)) = priv_data s"
    and "config (snd (prepareUploadButton s)) = config s"
    and "api_styles (snd (prepareUploadButton s)) = api_styles s"
    and "assets (snd (prepareUploadButton s)) = assets s"
    and "notifier_shown (snd (prepareUploadButton s)) = notifier_shown s"
    and "dispatchChange_calls (snd (prepareUploadButton s)) = dispatchChange_calls s"
    and "timeouts (snd (prepareUploadButton s)) = timeouts s"
    and "nextElement (snd (prepareUploadButton s)) = Suc (nextElement s)"
  by (simp_all add: prepareUploadButton_def make_def Let_def split: option.splits)

lemma prepareUploadButton_Some:
  assumes "nodes_wrapper s = Some w" and "w < nextElement s"
  shows "fst (prepareUploadButton s) = Inr ()"
    and "doc (snd (prepareUploadButton s)) w =
           (doc s w)\<lparr>children := removeAll (nextElement s) (children (doc s w)) @ [nextElement s]\<rparr>"
    and "doc (snd (prepareUploadButton s)) (nextElement s) =
           (createElement ''div'')\<lparr>classList := classList_add [CSS_apiButton s, CSS_button] [],
              content := Markup (Icon (assets s) @ '' '' @ ToString (buttonText (config s))),
              clickListeners := [EnableFileUpload]\<rparr>"
  using assms
  by (simp_all add: prepareUploadButton_def make_def Let_def appendChild_apply modify_apply
        set_innerHTML_def addClickListener_def createElement_def)

lemma render_frame:
  shows "nodes_wrapper (snd (render s)) = Some (Suc (nextElement s))"
    and "nodes_button (snd (render s)) = (if pluginHasData s then nodes_button s else Some (nextElement s + 2))"
    and "displayData (snd (render s)) = displayData s"
    and "priv_data (snd (render s)) = priv_data s"
    and "config (snd (render s)) = config s"
    and "api_styles (snd (render s)) = api_styles s"
    and "assets (snd (render s)) = assets s"
    and "notifier_shown (snd (render s)) = notifier_shown s"
    and "dispatchChange_calls (snd (render s)) = dispatchChange_calls s"
    and "timeouts (snd (render s)) = timeouts s"
    and "nextElement s + 2 \<le> nextElement (snd (render s))"
    and "fst (render s) = Inr (nextElement s)"
proof -
  have f1: "\<And>t. nodes_wrapper t \<noteq> None \<Longrightarrow> fst (showFileData t) = Inr ()"
    using showFileData_Some_fst by auto
  have f2: "\<And>t. nodes_wrapper t \<noteq> None \<Longrightarrow> fst (prepareUploadButton t) = Inr ()"
    by (auto simp: prepareUploadButton_def make_def Let_def)
  have f3: "\<And>t. nextElement t \<le> nextElement (snd (showFileData t))"
    by (rule showFileData_frame)
  show "nodes_wrapper (snd (render s)) = Some (Suc (nextElement s))"
    and "nodes_button (snd (render s)) = (if pluginHasData s then nodes_button s else Some (nextElement s + 2))"
    and "displayData (snd (render s)) = displayData s"
    and "priv_data (snd (render s)) = priv_data s"
    and "config (snd (render s)) = config s"
    and "api_styles (snd (render s)) = api_styles s"
    and "assets (snd (render s)) = assets s"
    and "notifier_shown (snd (render s)) = notifier_shown s"
    and "dispatchChange_calls (snd (render s)) = dispatchChange_calls s"
    and "timeouts (snd (render s)) = timeouts s"
    and "fst (render s) = Inr (nextElement s)"
    by (simp_all add: render_def make_def Let_def case_prod_beta f1 f2 pluginHasData_def
          showFileData_frame prepareUploadButton_frame)
  show "nextElement s + 2 \<le> nextElement (snd (render s))"
    using f3[of "snd (make ''div'' (ClassName CSS_wrapper) [] (snd (make ''div'' (ClassName (CSS_baseClass s)) [] s)))\<lparr>nodes_wrapper := Some (Suc (nextElement s))\<rparr>"]
    by (simp add: render_def make_def Let_def case_prod_beta f1 f2 pluginHasData_def
          prepareUploadButton_frame)
qed

lemma small_frames:
  shows "nodes_wrapper (snd (onPreview s)) = nodes_wrapper s"
    and "nodes_button (snd (onPreview s)) = nodes_button s"
    and "displayData (snd (onPreview s)) = displayData s"
    and "nextElement (snd (onPreview s)) = nextElement s"
    and "nodes_wrapper (snd (removeLoader_callback s)) = nodes_wrapper s"
    and "nodes_button (snd (removeLoader_callback s)) = nodes_button s"
    and "displayData (snd (removeLoader_callback s)) = displayData s"
    and "nextElement (snd (removeLoader_callback s)) = nextElement s"
    and "nodes_wrapper (snd (uploadingFailed m s)) = nodes_wrapper s"
    and "nodes_button (snd (uploadingFailed m s)) = nodes_button s"
    and "displayData (snd (uploadingFailed m s)) = displayData s"
    and "nextElement (snd (uploadingFailed m s)) = nextElement s"
    and "nodes_wrapper (set_data v s) = nodes_wrapper s"
    and "nodes_button (set_data v s) = nodes_button s"
    and "displayData (set_data v s) = displayData s"
    and "nextElement (set_data v s) = nextElement s"
    and "nodes_wrapper (enableFileUpload s) = nodes_wrapper s"
    and "nodes_button (enableFileUpload s) = nodes_button s"
    and "displayData (enableFileUpload s) = displayData s"
    and "nextElement (enableFileUpload s) = nextElement s"
  by (simp_all add: onPreview_def removeLoader_callback_def uploadingFailed_def removeLoader_def
        set_data_def enableFileUpload_def split: option.splits)

text \<open>The result of \<open>onUpload\<close>, path by path.\<close>

lemma deriveExtension_not_NullNode: "deriveExtension v \<noteq> Inl NullNode"
  by (simp add: deriveExtension_def split: jsval.splits option.splits)

lemma onUpload_not_accepted:
  assumes "\<not> uploadAccepted r"
  shows "doc (snd (onUpload r s)) = doc s"
    and "displayData (snd (onUpload r s)) = displayData s"
    and "nextElement (snd (onUpload r s)) = nextElement s"
    and "fst (onUpload r s) \<noteq> Inl NullNode"
  using assms deriveExtension_not_NullNode[of "getProp (getProp r ''file'') ''name''"]
  by (auto simp: onUpload_def uploadAccepted_def uploadingFailed_def removeLoader_def Let_def
        split: sum.splits)

lemma onUpload_accepted:
  assumes "uploadAccepted r"
  obtains ext where "deriveExtension (getProp (getProp r ''file'') ''name'') = Inr ext"
    and "onUpload r s =
      (let s1 = s\<lparr>displayData :=
                   \<lparr>file = [(''extension'', JStr ext), (''name'', getProp (getProp r ''file'') ''name''),
                            (''size'', getProp (getProp r ''file'') ''size'')],
                    title = getProp (getProp r ''file'') ''title''\<rparr>\<rparr>
       in case nodes_button s1 of
            None \<Rightarrow> (Inl NullNode, s1)
          | Some b \<Rightarrow>
             (case showFileData (s1\<lparr>doc := remove b (doc s1)\<rparr>) of
                (Inl e, s2) \<Rightarrow> (Inl e, s2)
              | (Inr u, s2) \<Rightarrow> (Inr (), removeLoader s2)))"
  using assms
  by (auto simp: onUpload_def uploadAccepted_def Let_def split: sum.splits)

lemma onUpload_frame:
  shows "nodes_wrapper (snd (onUpload r s)) = nodes_wrapper s"
    and "nodes_button (snd (onUpload r s)) = nodes_button s"
    and "priv_data (snd (onUpload r s)) = priv_data s"
    and "config (snd (onUpload r s)) = config s"
    and "api_styles (snd (onUpload r s)) = api_styles s"
    and "assets (snd (onUpload r s)) = assets s"
    and "dispatchChange_calls (snd (onUpload r s)) = dispatchChange_calls s"
    and "nextElement s \<le> nextElement (snd (onUpload r s))"
proof -
  have *: "nodes_wrapper (snd (onUpload r s)) = nodes_wrapper s
    \<and> nodes_button (snd (onUpload r s)) = nodes_button s
    \<and> priv_data (snd (onUpload r s)) = priv_data s
    \<and> config (snd (onUpload r s)) = config s
    \<and> api_styles (snd (onUpload r s)) = api_styles s
    \<and> assets (snd (onUpload r s)) = assets s
    \<and> dispatchChange_calls (snd (onUpload r s)) = dispatchChange_calls s
    \<and> nextElement s \<le> nextElement (snd (onUpload r s))"
  proof (cases "uploadAccepted r")
    case False
    then show ?thesis
      by (auto simp: onUpload_def uploadAccepted_def uploadingFailed_def removeLoader_def Let_def
            split: sum.splits)
  next
    case True
    then obtain ext where eq: "onUpload r s =
      (let s1 = s\<lparr>displayData :=
                   \<lparr>file = [(''extension'', JStr ext), (''name'', getProp (getProp r ''file'') ''name''),
                            (''size'', getProp (getProp r ''file'') ''size'')],
                    title = getProp (getProp r ''file'') ''title''\<rparr>\<rparr>
       in case nodes_button s1 of
            None \<Rightarrow> (Inl NullNode, s1)
          | Some b \<Rightarrow>
             (case showFileData (s1\<lparr>doc := remove b (doc s1)\<rparr>) of
                (Inl e, s2) \<Rightarrow> (Inl e, s2)
              | (Inr u, s2) \<Rightarrow> (Inr (), removeLoader s2)))"
      by (rule onUpload_accepted)
    show ?thesis
    proof (cases "nodes_button s")
      case None
      then show ?thesis by (simp add: eq)
    next
      case (Some b)
      let ?t = "s\<lparr>displayData :=
                   \<lparr>file = [(''extension'', JStr ext), (''name'', getProp (getProp r ''file'') ''name''),
                            (''size'', getProp (getProp r ''file'') ''size'')],
                    title = getProp (getProp r ''file'') ''title''\<rparr>, doc := remove b (doc s)\<rparr>"
      have "snd (onUpload r s) = (case fst (showFileData ?t) of Inl e \<Rightarrow> snd (showFileData ?t)
               | Inr u \<Rightarrow> removeLoader (snd (showFileData ?t)))"
        using Some by (simp add: eq case_prod_beta split: sum.splits)
      then show ?thesis
        using showFileData_frame[of ?t]
        by (simp add: removeLoader_def split: sum.splits)
    qed
  qed
  from * show "nodes_wrapper (snd (onUpload r s)) = nodes_wrapper s"
    and "nodes_button (snd (onUpload r s)) = nodes_button s"
    and "priv_data (snd (onUpload r s)) = priv_data s"
    and "config (snd (onUpload r s)) = config s"
    and "api_styles (snd (onUpload r s)) = api_styles s"
    and "assets (snd (onUpload r s)) = assets s"
    and "dispatchChange_calls (snd (onUpload r s)) = dispatchChange_calls s"
    and "nextElement s \<le> nextElement (snd (onUpload r s))"
    by simp_all
qed

lemma onUpload_displayData:
  assumes "\<not> nullish r" and "truthy (getProp r ''success'')" and "truthy (getProp r ''file'')"
    and "deriveExtension (getProp (getProp r ''file'') ''name'') = Inr ext"
  shows "displayData (snd (onUpload r s)) =
           \<lparr>file = [(''extension'', JStr ext), (''name'', getProp (getProp r ''file'') ''name''),
                    (''size'', getProp (getProp r ''file'') ''size'')],
            title = getProp (getProp r ''file'') ''title''\<rparr>"
  using assms
  by (simp add: onUpload_def Let_def case_prod_beta showFileData_frame removeLoader_def
        split: option.splits sum.splits)

section \<open>The data of the block and the upload callback\<close>

text \<open>
  Claim C9: the setter of \<open>data\<close> stores a truthy value as it is and an empty object for
  \<open>null\<close> and \<open>undefined\<close> (and for every other falsy value), so that the getter never gives
  \<open>null\<close> or \<open>undefined\<close>, neither after the setter nor after the constructor; and each
  assignment calls \<open>block.dispatchChange\<close> once, whatever the value.
\<close>

theorem set_data_stores:
  "get_data (set_data v s) = (if truthy v then v else JObj [])
   \<and> get_data (set_data JNull s) = JObj []
   \<and> get_data (set_data JUndefined s) = JObj []
   \<and> \<not> nullish (get_data (set_data v s))
   \<and> dispatchChange_calls (set_data v s) = Suc (dispatchChange_calls s)
   \<and> \<not> nullish (get_data (constructor dat cfg styles svgs))"
  by (cases v; cases dat) (simp_all add: get_data_def set_data_def js_or_def nullish_def constructor_def)

theorem set_data_stores_witness:
  "get_data (set_data (JNum 0) example_block) = JObj []
   \<and> get_data (set_data (JStr ''x'') (set_data (JStr ''x'') example_block)) = JStr ''x''
   \<and> dispatchChange_calls (set_data (JStr ''x'') (set_data (JStr ''x'') example_block)) = 2"
  using set_data_stores[of "JNum 0" example_block]
    set_data_stores[of "JStr ''x''" "set_data (JStr ''x'') example_block"]
    set_data_stores[of "JStr ''x''" example_block]
  by (simp add: example_block_def constructor_def)

text \<open>
  Claim C6: \<open>pluginHasData\<close> is true exactly when the title of the display data is not the
  empty string or some member of its file object is not \<open>undefined\<close>; it is false for a
  block that has just been constructed, whatever data it was given.
\<close>

theorem pluginHasData_iff:
  "pluginHasData s =
     (title (displayData s) \<noteq> JStr [] \<or> (\<exists>(k, v) \<in> set (file (displayData s)). v \<noteq> JUndefined))
   \<and> \<not> pluginHasData (constructor dat cfg styles svgs)"
proof -
  have "list_ex (\<lambda>item. item \<noteq> JUndefined) (Object_values ps) = (\<exists>(k, v) \<in> set ps. v \<noteq> JUndefined)"
    for ps :: "(string \<times> jsval) list"
    by (induction ps) (auto simp: Object_values_def)
  then show ?thesis
    by (simp add: pluginHasData_def constructor_def Object_values_def)
qed

theorem pluginHasData_iff_witness:
  "\<not> pluginHasData example_block
   \<and> pluginHasData (example_block\<lparr>displayData := \<lparr>file = [(''name'', JUndefined), (''size'', JNum 1)], title = JStr []\<rparr>\<rparr>)"
  using pluginHasData_iff[of "example_block\<lparr>displayData := \<lparr>file = [(''name'', JUndefined), (''size'', JNum 1)], title = JStr []\<rparr>\<rparr>" JUndefined "[]" example_styles example_svg]
  by (simp add: example_block_def)



text \<open>
  Claim C1, as the code has it: for a response with truthy \<open>success\<close> and \<open>file\<close> whose
  name is a string or falsy, \<open>onUpload\<close> replaces the display data by the derived
  extension, the name, the size and the title of the response; the data of the block, as
  the getter and \<open>save\<close> return them, are what they were before the call, and the host is
  not told of a change.
\<close>

theorem onUpload_success_data:
  assumes "\<not> nullish r" and "truthy (getProp r ''success'')" and "truthy (getProp r ''file'')"
    and "deriveExtension (getProp (getProp r ''file'') ''name'') = Inr ext"
  shows "displayData (snd (onUpload r s)) =
           \<lparr>file = [(''extension'', JStr ext), (''name'', getProp (getProp r ''file'') ''name''),
                    (''size'', getProp (getProp r ''file'') ''size'')],
            title = getProp (getProp r ''file'') ''title''\<rparr>
         \<and> get_data (snd (onUpload r s)) = get_data s
         \<and> save (snd (onUpload r s)) = save s
         \<and> dispatchChange_calls (snd (onUpload r s)) = dispatchChange_calls s"
  using assms
  by (simp add: onUpload_displayData get_data_def save_def onUpload_frame)

lemma example_extension: "deriveExtension (JStr ''a.pdf'') = Inr ''pdf''"
  by (simp add: deriveExtension_def pop_def toLowerCase_def lower_char_def)

theorem onUpload_success_data_witness:
  "displayData (snd (onUpload example_response example_block)) =
     \<lparr>file = [(''extension'', JStr ''pdf''), (''name'', JStr ''a.pdf''), (''size'', JNum 2048)],
      title = JStr ''A''\<rparr>
   \<and> get_data (snd (onUpload example_response example_block)) = JObj []"
  using onUpload_success_data[of example_response "''pdf''" example_block]
  by (simp add: example_response_def nullish_def getProp_def example_extension get_data_def
        example_block_def constructor_def js_or_def)

text \<open>
  The claim as the specification words it has the data of the block reflect the upload;
  after a successful upload on a rendered block they are still the empty object.
\<close>

theorem onUpload_data_counterexample:
  "fst (onUpload example_response (snd (render example_block))) = Inr ()
   \<and> title (displayData (snd (onUpload example_response (snd (render example_block))))) = JStr ''A''
   \<and> get_data (snd (onUpload example_response (snd (render example_block)))) = JObj []
   \<and> save (snd (onUpload example_response (snd (render example_block)))) = JObj []
   \<and> getProp (save (snd (onUpload example_response (snd (render example_block))))) ''title'' \<noteq> JStr ''A''
   \<and> getProp (save (snd (onUpload example_response (snd (render example_block))))) ''file'' = JUndefined"
proof -
  have acc: "uploadAccepted example_response"
    by (simp add: uploadAccepted_def example_response_def nullish_def getProp_def example_extension)
  have nb: "nodes_button (snd (render example_block)) = Some 2"
    by (simp add: render_frame example_block_def constructor_def pluginHasData_def Object_values_def)
  have nw: "nodes_wrapper (snd (render example_block)) = Some 1"
    by (simp add: render_frame example_block_def constructor_def)
  have d: "get_data (snd (onUpload example_response (snd (render example_block)))) = JObj []"
    by (simp add: get_data_def onUpload_frame render_frame example_block_def constructor_def js_or_def)
  have t: "title (displayData (snd (onUpload example_response (snd (render example_block))))) = JStr ''A''"
    using onUpload_displayData[of example_response "''pdf''" "snd (render example_block)"]
    by (simp add: example_response_def nullish_def getProp_def example_extension)
  from acc obtain ext where eq: "onUpload example_response (snd (render example_block)) =
      (let s1 = (snd (render example_block))\<lparr>displayData :=
                   \<lparr>file = [(''extension'', JStr ext), (''name'', getProp (getProp example_response ''file'') ''name''),
                            (''size'', getProp (getProp example_response ''file'') ''size'')],
                    title = getProp (getProp example_response ''file'') ''title''\<rparr>\<rparr>
       in case nodes_button s1 of
            None \<Rightarrow> (Inl NullNode, s1)
          | Some b \<Rightarrow>
             (case showFileData (s1\<lparr>doc := remove b (doc s1)\<rparr>) of
                (Inl e, s2) \<Rightarrow> (Inl e, s2)
              | (Inr u, s2) \<Rightarrow> (Inr (), removeLoader s2)))"
    by (rule onUpload_accepted)
  have f: "fst (onUpload example_response (snd (render example_block))) = Inr ()"
    using showFileData_Some_fst[of _ 1]
    by (simp add: eq nb nw case_prod_beta)
  from d t f show ?thesis
    by (simp add: save_def getProp_def)
qed

section \<open>The file icon\<close>

lemma appendFileIcon_icon:
  assumes "wrapper_created s"
  shows "doc (snd (appendFileIcon s)) (nextElement s) = fileIcon_element (displayData s) (assets s)"
proof -
  have "children (fileIcon_element (displayData s) (assets s)) = []"
    by (simp add: fileIcon_element_def Let_def createElement_def)
  with assms show ?thesis
    by (auto simp: appendFileIcon_eq Let_def appendChild_apply wrapper_created_def split: option.splits)
qed

lemma EXTENSIONS_colours: "map_of EXTENSIONS ext = Some c \<Longrightarrow> c \<noteq> []"
  by (auto simp: EXTENSIONS_def split: if_splits)

lemma appendFileIcon_generic:
  assumes "wrapper_created s"
    and "getProp (JObj (file (displayData s))) ''extension'' = JStr ext"
    and "ext \<notin> fst ` set EXTENSIONS" and "ext \<notin> set Object_prototype"
  shows "doc (snd (appendFileIcon s)) (nextElement s) =
           (createElement ''div'')\<lparr>classList := [CSS_fileIcon], content := Markup (FileIcon (assets s))\<rparr>"
proof -
  from assms(3) have "map_of EXTENSIONS ext = None"
    by (simp add: map_of_eq_None_iff)
  with assms(4) have "EXTENSIONS_get ext = Missing"
    by (simp add: EXTENSIONS_get_def)
  moreover have "EXTENSIONS_get [] = Missing"
    by (simp add: EXTENSIONS_get_def EXTENSIONS_def Object_prototype_def)
  ultimately show ?thesis
    using assms(1,2)
    by (simp add: appendFileIcon_icon fileIcon_element_def Let_def js_or_def)
qed

lemma appendFileIcon_coloured:
  assumes "wrapper_created s"
    and "getProp (JObj (file (displayData s))) ''extension'' = JStr ext"
    and "map_of EXTENSIONS ext = Some c"
  shows "doc (snd (appendFileIcon s)) (nextElement s) =
           (createElement ''div'')\<lparr>classList := (if 3 < length ext then [CSS_fileIcon, ''longer''] else [CSS_fileIcon]),
              content := Markup (CustomFileIcon (assets s)), style_color := c,
              attributes := [(''data-extension'', ext)]\<rparr>"
proof -
  from assms(3) have c: "c \<noteq> []" by (rule EXTENSIONS_colours)
  from assms(3) have "ext \<noteq> []" by (auto simp: EXTENSIONS_def split: if_splits)
  with assms c show ?thesis
    by (simp add: appendFileIcon_icon fileIcon_element_def Let_def js_or_def EXTENSIONS_get_def
          longer_than_3_def)
qed

section \<open>What render builds\<close>

lemma render_parts:
  fixes s :: block
  defines "n \<equiv> nextElement s"
  defines "s3 \<equiv> (snd (make ''div'' (ClassName CSS_wrapper) [] (snd (make ''div'' (ClassName (CSS_baseClass s)) [] s))))
                   \<lparr>nodes_wrapper := Some (Suc (nextElement s))\<rparr>"
  defines "s4 \<equiv> snd (if pluginHasData s then showFileData s3 else prepareUploadButton s3)"
  shows "render s = (Inr n, s4\<lparr>doc := appendChild n (Suc n) (doc s4)\<rparr>)"
    and "nodes_wrapper s3 = Some (Suc n)" and "nextElement s3 = n + 2"
    and "doc s3 (Suc n) = (createElement ''div'')\<lparr>classList := [CSS_wrapper]\<rparr>"
    and "displayData s3 = displayData s" and "assets s3 = assets s" and "config s3 = config s"
    and "CSS_apiButton s3 = CSS_apiButton s"
proof -
  have f1: "\<And>t. nodes_wrapper t \<noteq> None \<Longrightarrow> fst (showFileData t) = Inr ()"
    using showFileData_Some_fst by auto
  have f2: "\<And>t. nodes_wrapper t \<noteq> None \<Longrightarrow> fst (prepareUploadButton t) = Inr ()"
    by (auto simp: prepareUploadButton_def make_def Let_def)
  show "render s = (Inr n, s4\<lparr>doc := appendChild n (Suc n) (doc s4)\<rparr>)"
    unfolding s3_def s4_def n_def
    by (simp add: render_def make_def Let_def case_prod_beta f1 f2 pluginHasData_def)
  show "nodes_wrapper s3 = Some (Suc n)" and "nextElement s3 = n + 2"
    and "doc s3 (Suc n) = (createElement ''div'')\<lparr>classList := [CSS_wrapper]\<rparr>"
    and "displayData s3 = displayData s" and "assets s3 = assets s" and "config s3 = config s"
    and "CSS_apiButton s3 = CSS_apiButton s"
    by (simp_all add: s3_def n_def make_def Let_def classList_add_def CSS_wrapper_def createElement_def
          CSS_apiButton_def)
qed


lemma render_upload_button:
  assumes "\<not> pluginHasData s"
  shows "doc (snd (render s)) (Suc (nextElement s)) =
           (createElement ''div'')\<lparr>classList := [CSS_wrapper], children := [nextElement s + 2]\<rparr>"
    and "doc (snd (render s)) (nextElement s + 2) =
           (createElement ''div'')\<lparr>classList := classList_add [CSS_apiButton s, CSS_button] [],
              content := Markup (Icon (assets s) @ '' '' @ ToString (buttonText (config s))),
              clickListeners := [EnableFileUpload]\<rparr>"
    and "children (doc (snd (render s)) (nextElement s)) = [Suc (nextElement s)]"
    and "nextElement (snd (render s)) = nextElement s + 3"
proof -
  let ?s3 = "(snd (make ''div'' (ClassName CSS_wrapper) [] (snd (make ''div'' (ClassName (CSS_baseClass s)) [] s))))
                   \<lparr>nodes_wrapper := Some (Suc (nextElement s))\<rparr>"
  note rp = render_parts[of s]
  have lt: "Suc (nextElement s) < nextElement ?s3" using rp(3) by simp
  have r: "snd (render s) = (snd (prepareUploadButton ?s3))\<lparr>doc := appendChild (nextElement s) (Suc (nextElement s)) (doc (snd (prepareUploadButton ?s3)))\<rparr>"
    using assms by (simp add: rp(1))
  have hc: "children (doc (snd (prepareUploadButton ?s3)) (nextElement s)) = []"
    by (simp add: prepareUploadButton_def make_def Let_def appendChild_apply modify_apply createElement_def)
  show "doc (snd (render s)) (Suc (nextElement s)) =
           (createElement ''div'')\<lparr>classList := [CSS_wrapper], children := [nextElement s + 2]\<rparr>"
    using prepareUploadButton_Some(2)[OF rp(2) lt] rp(3,4)
    by (simp add: r appendChild_apply createElement_def eval_nat_numeral)
  show "doc (snd (render s)) (nextElement s + 2) =
           (createElement ''div'')\<lparr>classList := classList_add [CSS_apiButton s, CSS_button] [],
              content := Markup (Icon (assets s) @ '' '' @ ToString (buttonText (config s))),
              clickListeners := [EnableFileUpload]\<rparr>"
    using prepareUploadButton_Some(3)[OF rp(2) lt] rp(3,6,7,8)
    by (simp add: r appendChild_apply createElement_def eval_nat_numeral)
  show "children (doc (snd (render s)) (nextElement s)) = [Suc (nextElement s)]"
    using hc by (simp add: r appendChild_apply)
  show "nextElement (snd (render s)) = nextElement s + 3"
    using rp(3) by (simp add: r prepareUploadButton_frame)
qed


section \<open>Invariants of an instance\<close>

lemma run_Nil: "run s [] = s"
  by (simp add: run_def)

lemma run_Cons: "run s (e # evs) = run (step s e) evs"
  by (simp add: run_def)

lemma run_append: "run s (xs @ ys) = run (run s xs) ys"
  by (simp add: run_def)

lemma step_displayData:
  assumes "\<not> is_OnUpload e"
  shows "displayData (step s e) = displayData s"
  using assms
  by (cases e) (simp_all add: is_OnUpload_def render_frame small_frames split: list.splits)




lemma constructor_empty: "\<not> pluginHasData (constructor dat cfg styles svgs)"
  by (simp add: pluginHasData_def constructor_def Object_values_def)


section \<open>Null nodes\<close>

lemma step_rendered:
  assumes "nodes_wrapper s \<noteq> None" and "nodes_button s \<noteq> None"
  shows "nodes_wrapper (step s e) \<noteq> None \<and> nodes_button (step s e) \<noteq> None"
  using assms
  by (cases e) (simp_all add: render_frame small_frames onUpload_frame split: list.splits)

lemma run_rendered:
  assumes "nodes_wrapper s \<noteq> None" and "nodes_button s \<noteq> None"
  shows "nodes_wrapper (run s evs) \<noteq> None \<and> nodes_button (run s evs) \<noteq> None"
  using assms
proof (induction evs arbitrary: s)
  case Nil
  then show ?case by (simp add: run_Nil)
next
  case (Cons e evs)
  then show ?case using step_rendered[of s e] by (simp add: run_Cons)
qed

lemma run_displayData:
  assumes "\<forall>e \<in> set evs. \<not> is_OnUpload e"
  shows "displayData (run s evs) = displayData s"
  using assms
  by (induction evs arbitrary: s) (simp_all add: run_Nil run_Cons step_displayData)

lemma onUpload_rendered:
  assumes "nodes_wrapper s \<noteq> None" and "nodes_button s \<noteq> None"
  shows "fst (onUpload r s) \<noteq> Inl NullNode"
    and "uploadAccepted r \<Longrightarrow> fst (onUpload r s) = Inr ()"
proof -
  have *: "uploadAccepted r \<Longrightarrow> fst (onUpload r s) = Inr ()"
  proof -
    assume acc: "uploadAccepted r"
    from assms obtain w b where wb: "nodes_wrapper s = Some w" "nodes_button s = Some b" by auto
    from acc obtain ext where eq: "onUpload r s =
      (let s1 = s\<lparr>displayData :=
                   \<lparr>file = [(''extension'', JStr ext), (''name'', getProp (getProp r ''file'') ''name''),
                            (''size'', getProp (getProp r ''file'') ''size'')],
                    title = getProp (getProp r ''file'') ''title''\<rparr>\<rparr>
       in case nodes_button s1 of
            None \<Rightarrow> (Inl NullNode, s1)
          | Some b \<Rightarrow>
             (case showFileData (s1\<lparr>doc := remove b (doc s1)\<rparr>) of
                (Inl e, s2) \<Rightarrow> (Inl e, s2)
              | (Inr u, s2) \<Rightarrow> (Inr (), removeLoader s2)))"
      by (rule onUpload_accepted)
    show "fst (onUpload r s) = Inr ()"
      using showFileData_Some_fst[of _ w] wb
      by (simp add: eq case_prod_beta)
  qed
  then show "uploadAccepted r \<Longrightarrow> fst (onUpload r s) = Inr ()" .
  show "fst (onUpload r s) \<noteq> Inl NullNode"
    using * onUpload_not_accepted(4)[of r s] by (cases "uploadAccepted r") simp_all
qed

text \<open>
  Claim C10: when \<open>render\<close> has been called before any \<open>onUpload\<close>, then at every later
  moment the wrapper and the button are not null, and \<open>onUpload\<close> does not raise for a
  null node whatever the response: an accepted response makes it return normally, and any
  other one leaves everything but the notifications and the timeouts as it was.
\<close>

theorem onUpload_after_render:
  assumes "\<forall>e \<in> set before. \<not> is_OnUpload e"
  shows "nodes_wrapper (run (constructor dat cfg styles svgs) (before @ Render # after)) \<noteq> None
       \<and> nodes_button (run (constructor dat cfg styles svgs) (before @ Render # after)) \<noteq> None
       \<and> fst (onUpload r (run (constructor dat cfg styles svgs) (before @ Render # after))) \<noteq> Inl NullNode
       \<and> (if uploadAccepted r
          then fst (onUpload r (run (constructor dat cfg styles svgs) (before @ Render # after))) = Inr ()
          else snd (onUpload r (run (constructor dat cfg styles svgs) (before @ Render # after)))
                 \<lparr>notifier_shown := [], timeouts := []\<rparr>
               = (run (constructor dat cfg styles svgs) (before @ Render # after))
                 \<lparr>notifier_shown := [], timeouts := []\<rparr>)"
proof -
  let ?s0 = "constructor dat cfg styles svgs"
  let ?s1 = "run ?s0 before"
  have "displayData ?s1 = displayData ?s0" using assms by (rule run_displayData)
  then have "\<not> pluginHasData ?s1"
    using constructor_empty[of dat cfg styles svgs] by (simp add: pluginHasData_def)
  then have "nodes_wrapper (step ?s1 Render) \<noteq> None \<and> nodes_button (step ?s1 Render) \<noteq> None"
    by (simp add: render_frame)
  then have r: "nodes_wrapper (run ?s0 (before @ Render # after)) \<noteq> None
      \<and> nodes_button (run ?s0 (before @ Render # after)) \<noteq> None"
    using run_rendered[of "step ?s1 Render" after] by (simp add: run_append run_Cons)
  have "\<not> uploadAccepted r \<Longrightarrow> snd (onUpload r s)\<lparr>notifier_shown := [], timeouts := []\<rparr>
      = s\<lparr>notifier_shown := [], timeouts := []\<rparr>" for s
    by (auto simp: onUpload_def uploadAccepted_def uploadingFailed_def removeLoader_def Let_def
          split: sum.splits)
  with r show ?thesis
    using onUpload_rendered[of "run ?s0 (before @ Render # after)" r] by simp
qed

section \<open>Repeated uploads\<close>

lemma snapshot_leaf: "children (d i) = [] \<Longrightarrow> snapshot k d i = DomNode (d i) []"
  by (cases k; cases "d i") simp_all

lemma cut_leaf: "cut k (DomNode e []) = DomNode e []"
  by (cases k) simp_all

lemma leaf_elements:
  "children (fileIcon_element D A) = []"
  "children (title_element t) = []"
  "children (size_element z) = []"
  by (simp_all add: fileIcon_element_def title_element_def size_element_def Let_def createElement_def)

lemma erase_children:
  "(wrapper_with_file el kids)\<lparr>children := []\<rparr> = wrapper_with_file el []"
  "(fileInfo_element kids)\<lparr>children := []\<rparr> = fileInfo_element []"
  "children (wrapper_with_file el kids) = kids"
  "children (fileInfo_element kids) = kids"
  by (simp_all add: wrapper_with_file_def fileInfo_element_def addClickListener_def)

lemma showFileData_snapshot:
  assumes w: "nodes_wrapper s = Some w" and lt: "w < nextElement s"
  shows "snapshot k (doc (snd (showFileData s))) w
           = cut k (fileCard_tree (doc s w) (displayData s) (assets s))"
proof -
  let ?d = "doc (snd (showFileData s))"
  let ?n = "nextElement s"
  have icon: "snapshot j ?d ?n = DomNode (fileIcon_element (displayData s) (assets s)) []" for j
    using showFileData_Some_icon[OF w lt] by (simp add: snapshot_leaf leaf_elements)
  have ttl: "truthy (title (displayData s)) \<Longrightarrow>
      snapshot j ?d (?n + 2) = DomNode (title_element (title (displayData s))) []" for j
    using showFileData_Some_title[OF w lt] by (simp add: snapshot_leaf leaf_elements)
  have sz: "truthy (getProp (JObj (file (displayData s))) ''size'') \<Longrightarrow>
      snapshot j ?d (if truthy (title (displayData s)) then ?n + 3 else ?n + 2)
        = DomNode (size_element (getProp (JObj (file (displayData s))) ''size'')) []" for j
    using showFileData_Some_size[OF w lt] by (simp add: snapshot_leaf leaf_elements)
  have info: "snapshot j ?d (Suc ?n) =
      cut j (DomNode (fileInfo_element [])
          ((if truthy (title (displayData s)) then [DomNode (title_element (title (displayData s))) []] else []) @
           (if truthy (getProp (JObj (file (displayData s))) ''size'')
            then [DomNode (size_element (getProp (JObj (file (displayData s))) ''size'')) []] else [])))" for j
  proof (cases j)
    case 0
    then show ?thesis
      by (simp add: showFileData_Some_fileInfo[OF w lt] erase_children)
  next
    case (Suc i)
    then show ?thesis
      using ttl[of i] sz[of i]
      by (simp add: showFileData_Some_fileInfo[OF w lt] erase_children fileInfo_children_def cut_leaf)
  qed
  show ?thesis
  proof (cases k)
    case 0
    then show ?thesis
      by (simp add: showFileData_Some_wrapper[OF w lt] erase_children fileCard_tree_def)
  next
    case (Suc j)
    then show ?thesis
      using icon[of j] info[of j]
      by (simp add: showFileData_Some_wrapper[OF w lt] erase_children fileCard_tree_def cut_leaf)
  qed
qed

lemma wrapper_with_file_again:
  "wrapper_with_file (wrapper_with_file el kids) [] = wrapper_with_file el []"
  "wrapper_with_file (el\<lparr>children := c\<rparr>) [] = wrapper_with_file el []"
  by (auto simp: wrapper_with_file_def addClickListener_def classList_add_def)

lemma fileCard_tree_again:
  "fileCard_tree (wrapper_with_file el kids) D A = fileCard_tree el D A"
  "fileCard_tree (el\<lparr>children := c\<rparr>) D A = fileCard_tree el D A"
  by (simp_all add: fileCard_tree_def wrapper_with_file_again)

lemma onUpload_twice:
  assumes "wrapper_created s"
  shows "wrapper_view k (snd (onUpload r (snd (onUpload r s)))) = wrapper_view k (snd (onUpload r s))"
proof (cases "uploadAccepted r")
  case False
  then show ?thesis
    by (simp add: wrapper_view_def onUpload_frame onUpload_not_accepted)
next
  case True
  then obtain ext where ext: "deriveExtension (getProp (getProp r ''file'') ''name'') = Inr ext"
    by (auto simp: uploadAccepted_def split: sum.splits)
  let ?D = "\<lparr>file = [(''extension'', JStr ext), (''name'', getProp (getProp r ''file'') ''name''),
                    (''size'', getProp (getProp r ''file'') ''size'')],
            title = getProp (getProp r ''file'') ''title''\<rparr>"
  have eq: "onUpload r t =
      (let s1 = t\<lparr>displayData := ?D\<rparr>
       in case nodes_button s1 of
            None \<Rightarrow> (Inl NullNode, s1)
          | Some b \<Rightarrow>
             (case showFileData (s1\<lparr>doc := remove b (doc s1)\<rparr>) of
                (Inl e, s2) \<Rightarrow> (Inl e, s2)
              | (Inr u, s2) \<Rightarrow> (Inr (), removeLoader s2)))" for t
  proof -
    obtain e' where a: "deriveExtension (getProp (getProp r ''file'') ''name'') = Inr e'"
      and b: "onUpload r t =
      (let s1 = t\<lparr>displayData :=
                   \<lparr>file = [(''extension'', JStr e'), (''name'', getProp (getProp r ''file'') ''name''),
                            (''size'', getProp (getProp r ''file'') ''size'')],
                    title = getProp (getProp r ''file'') ''title''\<rparr>\<rparr>
       in case nodes_button s1 of
            None \<Rightarrow> (Inl NullNode, s1)
          | Some b \<Rightarrow>
             (case showFileData (s1\<lparr>doc := remove b (doc s1)\<rparr>) of
                (Inl e, s2) \<Rightarrow> (Inl e, s2)
              | (Inr u, s2) \<Rightarrow> (Inr (), removeLoader s2)))"
      by (rule onUpload_accepted[OF True, of t])
    from a ext have "e' = ext" by simp
    with b show ?thesis by simp
  qed
  show ?thesis
  proof (cases "nodes_button s")
    case None
    then show ?thesis
      by (simp add: wrapper_view_def eq)
  next
    case (Some b)
    show ?thesis
    proof (cases "nodes_wrapper s")
      case None
      then show ?thesis by (simp add: wrapper_view_def onUpload_frame)
    next
      case (Some w)
      with assms have lt: "w < nextElement s" by (simp add: wrapper_created_def)
      let ?t1 = "s\<lparr>displayData := ?D, doc := remove b (doc s)\<rparr>"
      let ?s1 = "snd (onUpload r s)"
      let ?t2 = "?s1\<lparr>displayData := ?D, doc := remove b (doc ?s1)\<rparr>"
      have w1: "nodes_wrapper ?t1 = Some w" "w < nextElement ?t1"
        using Some lt by simp_all
      have s1: "?s1 = removeLoader (snd (showFileData ?t1))"
        using \<open>nodes_button s = Some b\<close> showFileData_Some_fst[of ?t1 w] w1
        by (simp add: eq[of s] case_prod_beta)
      have "w < nextElement ?s1"
        using lt onUpload_frame(8)[of s r] by linarith
      then have w2: "nodes_wrapper ?t2 = Some w" "w < nextElement ?t2"
        using Some by (simp_all add: onUpload_frame(1))
      have s2: "snd (onUpload r ?s1) = removeLoader (snd (showFileData ?t2))"
        using \<open>nodes_button s = Some b\<close> showFileData_Some_fst[of ?t2 w] w2
        by (simp add: eq[of ?s1] case_prod_beta onUpload_frame)
      have d1: "doc ?s1 w = wrapper_with_file (doc ?t1 w) [nextElement ?t1, Suc (nextElement ?t1)]"
        using showFileData_Some_wrapper[OF w1] by (simp add: s1 removeLoader_def)
      have v1: "snapshot k (doc ?s1) w = cut k (fileCard_tree (doc ?t1 w) ?D (assets s))"
        using showFileData_snapshot[OF w1, of k] by (simp add: s1 removeLoader_def)
      have v2: "snapshot k (doc (snd (onUpload r ?s1))) w = cut k (fileCard_tree (doc ?t2 w) ?D (assets s))"
        using showFileData_snapshot[OF w2, of k] by (simp add: s2 removeLoader_def onUpload_frame)
      have "fileCard_tree (doc ?t2 w) ?D (assets s) = fileCard_tree (doc ?t1 w) ?D (assets s)"
        by (simp add: remove_apply d1 fileCard_tree_again)
      with v1 v2 show ?thesis
        using Some by (simp add: wrapper_view_def onUpload_frame)
    qed
  qed
qed

lemma step_wrapper_created:
  assumes "wrapper_created s"
  shows "wrapper_created (step s e)"
proof (cases e)
  case Render
  then show ?thesis
    using render_frame(11)[of s] by (simp add: wrapper_created_def render_frame)
next
  case (OnUpload r)
  show ?thesis
  proof (cases "nodes_wrapper s")
    case None
    then show ?thesis by (simp add: OnUpload wrapper_created_def onUpload_frame)
  next
    case (Some w)
    with assms have "w < nextElement s" by (simp add: wrapper_created_def)
    also have "nextElement s \<le> nextElement (snd (onUpload r s))" by (rule onUpload_frame)
    finally show ?thesis using Some by (simp add: OnUpload wrapper_created_def onUpload_frame)
  qed
next
  case Timeout
  then show ?thesis
    using assms by (simp add: wrapper_created_def small_frames split: list.splits option.splits)
qed (use assms in \<open>simp_all add: wrapper_created_def small_frames split: option.splits\<close>)

lemma run_wrapper_created:
  assumes "wrapper_created s"
  shows "wrapper_created (run s evs)"
  using assms
  by (induction evs arbitrary: s) (simp_all add: run_Nil run_Cons step_wrapper_created)

lemma constructor_wrapper_created: "wrapper_created (constructor dat cfg styles svgs)"
  by (simp add: wrapper_created_def constructor_def)

text \<open>
  Claim C8: in any reachable state and for any payload, after two or more calls of
  \<open>onUpload\<close> with the same payload the content and the classes of the wrapper, to any
  depth, are those after the first call.
\<close>

theorem onUpload_idempotent:
  "wrapper_view k (run (constructor dat cfg styles svgs) (evs @ replicate (Suc (Suc j)) (OnUpload r)))
     = wrapper_view k (run (constructor dat cfg styles svgs) (evs @ [OnUpload r]))"
proof (induction j)
  case 0
  have "wrapper_created (run (constructor dat cfg styles svgs) evs)"
    by (simp add: run_wrapper_created constructor_wrapper_created)
  then show ?case
    using onUpload_twice[of "run (constructor dat cfg styles svgs) evs" k r]
    by (simp add: run_append run_Cons run_Nil)
next
  case (Suc j)
  let ?s = "run (constructor dat cfg styles svgs) (evs @ replicate j (OnUpload r))"
  have c: "wrapper_created ?s"
    by (simp add: run_wrapper_created constructor_wrapper_created)
  have r: "replicate (Suc n) (OnUpload r) = replicate n (OnUpload r) @ [OnUpload r]" for n
    by (simp add: replicate_append_same)
  have "run (constructor dat cfg styles svgs) (evs @ replicate (Suc (Suc (Suc j))) (OnUpload r))
      = snd (onUpload r (snd (onUpload r (snd (onUpload r ?s)))))"
    by (simp only: r run_append append_assoc[symmetric]) (simp add: run_Cons run_Nil)
  moreover have "run (constructor dat cfg styles svgs) (evs @ replicate (Suc (Suc j)) (OnUpload r))
      = snd (onUpload r (snd (onUpload r ?s)))"
    by (simp only: r run_append append_assoc[symmetric]) (simp add: run_Cons run_Nil)
  moreover have "wrapper_created (snd (onUpload r ?s))"
    using step_wrapper_created[OF c, of "OnUpload r"] by simp
  ultimately show ?case
    using Suc.IH onUpload_twice[of "snd (onUpload r ?s)" k r] by simp
qed

section \<open>From the upload button to the file card\<close>

lemma first_upload:
  assumes empty: "\<not> pluginHasData s"
    and acc: "uploadAccepted r"
    and ext: "deriveExtension (getProp (getProp r ''file'') ''name'') = Inr ext"
  defines "D \<equiv> \<lparr>file = [(''extension'', JStr ext), (''name'', getProp (getProp r ''file'') ''name''),
                    (''size'', getProp (getProp r ''file'') ''size'')],
            title = getProp (getProp r ''file'') ''title''\<rparr>"
  defines "S \<equiv> snd (onUpload r (snd (render s)))"
  shows "fst (onUpload r (snd (render s))) = Inr ()"
    and "nodes_wrapper S = Some (Suc (nextElement s))"
    and "doc S (Suc (nextElement s)) =
           wrapper_with_file ((createElement ''div'')\<lparr>classList := [CSS_wrapper]\<rparr>)
             [nextElement s + 3, nextElement s + 4]"
    and "doc S (nextElement s + 3) = fileIcon_element D (assets s)"
    and "wrapper_view k S =
           Some (cut k (fileCard_tree ((createElement ''div'')\<lparr>classList := [CSS_wrapper]\<rparr>) D (assets s)))"
proof -
  let ?n = "nextElement s"
  let ?s1 = "snd (render s)"
  let ?t = "?s1\<lparr>displayData := D, doc := remove (?n + 2) (doc ?s1)\<rparr>"
  have nb: "nodes_button ?s1 = Some (?n + 2)" and nw: "nodes_wrapper ?s1 = Some (Suc ?n)"
    using empty by (simp_all add: render_frame)
  have ne: "nextElement ?s1 = ?n + 3"
    using empty by (rule render_upload_button)
  have w: "nodes_wrapper ?t = Some (Suc ?n)" and lt: "Suc ?n < nextElement ?t"
    using nw ne by simp_all
  obtain e' where a: "deriveExtension (getProp (getProp r ''file'') ''name'') = Inr e'"
    and b: "onUpload r ?s1 =
      (let s1 = ?s1\<lparr>displayData :=
                   \<lparr>file = [(''extension'', JStr e'), (''name'', getProp (getProp r ''file'') ''name''),
                            (''size'', getProp (getProp r ''file'') ''size'')],
                    title = getProp (getProp r ''file'') ''title''\<rparr>\<rparr>
       in case nodes_button s1 of
            None \<Rightarrow> (Inl NullNode, s1)
          | Some b \<Rightarrow>
             (case showFileData (s1\<lparr>doc := remove b (doc s1)\<rparr>) of
                (Inl e, s2) \<Rightarrow> (Inl e, s2)
              | (Inr u, s2) \<Rightarrow> (Inr (), removeLoader s2)))"
    by (rule onUpload_accepted[OF acc, of ?s1])
  from a ext have "e' = ext" by simp
  with b nb have eq: "onUpload r ?s1 =
      (case showFileData ?t of (Inl e, s2) \<Rightarrow> (Inl e, s2) | (Inr u, s2) \<Rightarrow> (Inr (), removeLoader s2))"
    by (simp add: D_def)
  have f: "fst (showFileData ?t) = Inr ()"
    using w by (rule showFileData_Some_fst)
  then show "fst (onUpload r (snd (render s))) = Inr ()"
    by (simp add: eq case_prod_beta)
  have S: "S = removeLoader (snd (showFileData ?t))"
    using f by (simp add: S_def eq case_prod_beta)
  show "nodes_wrapper S = Some (Suc ?n)"
    using w by (simp add: S removeLoader_def showFileData_frame)
  have el: "remove (Suc (Suc ?n)) (doc ?s1) (Suc ?n) = (createElement ''div'')\<lparr>classList := [CSS_wrapper], children := []\<rparr>"
    using render_upload_button(1)[OF empty] by (simp add: remove_apply)
  show "doc S (Suc ?n) =
           wrapper_with_file ((createElement ''div'')\<lparr>classList := [CSS_wrapper]\<rparr>) [?n + 3, ?n + 4]"
    using showFileData_Some_wrapper[OF w lt] ne
    by (simp add: S removeLoader_def el wrapper_with_file_def eval_nat_numeral)
  show "doc S (?n + 3) = fileIcon_element D (assets s)"
    using showFileData_Some_icon[OF w lt] ne
    by (simp add: S removeLoader_def render_frame)
  show "wrapper_view k S =
           Some (cut k (fileCard_tree ((createElement ''div'')\<lparr>classList := [CSS_wrapper]\<rparr>) D (assets s)))"
    using showFileData_snapshot[OF w lt, of k] w
    by (simp add: wrapper_view_def S removeLoader_def showFileData_frame el fileCard_tree_again render_frame)
qed

section \<open>Examples\<close>

lemma example_accepted: "uploadAccepted example_response"
  by (simp add: uploadAccepted_def example_response_def nullish_def getProp_def example_extension)

lemma example_fresh:
  "nextElement example_block = 0" "\<not> pluginHasData example_block" "assets example_block = example_svg"
  by (simp_all add: example_block_def constructor_def pluginHasData_def Object_values_def)

lemma sizeLabel_2048: "sizeLabel (JNum 2048) = (''KiB'', ''2.0'')"
  by (simp add: sizeLabel_def toFixed1_Fin decimal1_def digits_small digit_char_def)

text \<open>
  The card of the example: the title \<open>A\<close>, the size \<open>2.0\<close> with the unit KiB, and the icon
  of a known extension in the colour of \<open>pdf\<close>.
\<close>

lemma example_card:
  "wrapper_view 2 (run example_block [Render, OnUpload example_response]) =
     Some (DomNode
       ((createElement ''div'')\<lparr>classList := [CSS_wrapper, CSS_wrapperWithFile],
           clickListeners := [EnableFileUpload]\<rparr>)
       [DomNode ((createElement ''div'')\<lparr>classList := [CSS_fileIcon],
                   content := Markup (CustomFileIcon example_svg),
                   attributes := [(''data-extension'', ''pdf'')], style_color := ''#d47373''\<rparr>) [],
        DomNode ((createElement ''div'')\<lparr>classList := [CSS_fileInfo]\<rparr>)
          [DomNode ((createElement ''div'')\<lparr>classList := [CSS_title], content := Text ''A'',
                      contentEditable := ''false''\<rparr>) [],
           DomNode ((createElement ''div'')\<lparr>classList := [CSS_size], content := Text ''2.0'',
                      attributes := [(''data-size'', ''KiB'')]\<rparr>) []]])"
proof -
  have ext: "deriveExtension (getProp (getProp example_response ''file'') ''name'') = Inr ''pdf''"
    by (simp add: example_response_def getProp_def example_extension)
  have pdf: "EXTENSIONS_get ''pdf'' = Colour ''#d47373''"
    by (simp add: EXTENSIONS_get_def EXTENSIONS_def)
  show ?thesis
    using first_upload(5)[OF example_fresh(2) example_accepted ext, of "Suc (Suc 0)"]
    by (simp add: run_Cons run_Nil example_fresh fileCard_tree_def wrapper_with_file_def
          fileIcon_element_def title_element_def size_element_def fileInfo_element_def
          addClickListener_def classList_add_def createElement_def Let_def js_or_def
          example_response_def getProp_def pdf longer_than_3_def sizeLabel_2048
          CSS_wrapper_def CSS_wrapperWithFile_def eval_nat_numeral)
qed


theorem onUpload_after_render_witness:
  "fst (onUpload example_response (run example_block [SetData JNull, Click, Render, Preview])) = Inr ()"
  using onUpload_after_render[of "[SetData JNull, Click]" JUndefined "[]" example_styles example_svg
          "[Preview]" example_response]
    example_accepted
  by (simp add: is_OnUpload_def example_block_def[symmetric])

theorem onUpload_idempotent_witness:
  "wrapper_view 2 (run example_block [Render, OnUpload example_response, OnUpload example_response,
                                        OnUpload example_response])
     = wrapper_view 2 (run example_block [Render, OnUpload example_response])
   \<and> wrapper_view 2 (run example_block [Render, OnUpload example_response]) \<noteq> None"
  using onUpload_idempotent[of 2 JUndefined "[]" example_styles example_svg "[Render]" "Suc 0" example_response]
    example_card
  by (simp add: example_block_def[symmetric])

text \<open>
  Claim C7 says that an extension that is not a key of the colour table gets the generic
  icon without colour and without the class \<open>longer\<close> (lemma \<open>appendFileIcon_generic\<close> has
  it for the names that \<open>Object.prototype\<close> does not define) and that a key of more than three
  characters gets the class \<open>longer\<close> and the colour of the table (lemma
  \<open>appendFileIcon_coloured\<close>). For the file name \<open>a.constructor\<close> the code does otherwise:
  \<open>constructor\<close> is not a key of the table, and the icon of the card is the custom variant
  with the class \<open>longer\<close>.
\<close>

theorem onUpload_inherited_name_icon:
  "''constructor'' \<notin> fst ` set EXTENSIONS
   \<and> fst (onUpload inherited_response (snd (render example_block))) = Inr ()
   \<and> children (doc (snd (onUpload inherited_response (snd (render example_block)))) 1) = [3, 4]
   \<and> content (doc (snd (onUpload inherited_response (snd (render example_block)))) 3)
       = Markup (CustomFileIcon example_svg)
   \<and> classList (doc (snd (onUpload inherited_response (snd (render example_block)))) 3)
       = [CSS_fileIcon, ''longer'']
   \<and> style_color (doc (snd (onUpload inherited_response (snd (render example_block)))) 3) = []"
proof -
  have ext: "deriveExtension (getProp (getProp inherited_response ''file'') ''name'') = Inr ''constructor''"
    by (simp add: inherited_response_def getProp_def deriveExtension_def pop_def toLowerCase_def lower_char_def)
  then have acc: "uploadAccepted inherited_response"
    by (simp add: uploadAccepted_def) (simp add: inherited_response_def nullish_def getProp_def)
  have g: "EXTENSIONS_get ''constructor'' = Inherited ''constructor''"
    by (simp add: EXTENSIONS_get_def EXTENSIONS_def Object_prototype_def)
  note fu = first_upload[OF example_fresh(2) acc ext]
  have "''constructor'' \<notin> fst ` set EXTENSIONS"
    by (simp add: EXTENSIONS_def)
  then show ?thesis
    using fu(1) fu(3) fu(4)
    by (simp add: example_fresh g fileIcon_element_def Let_def getProp_def js_or_def longer_than_3_def
          createElement_def wrapper_with_file_def addClickListener_def eval_nat_numeral)
qed

end
